theory Spec2Isabelle
  imports Main "HOL-Library.Multiset" "HOL-Library.Char_ord" "HOL-Library.List_Lexorder"
    "HOL-Library.AList"
begin

section \<open>Exceptions\<close>

text \<open>
  The exceptions the program meets. \<open>FileNotFoundError\<close> and \<open>NotADirectoryError\<close> are
  subclasses of \<open>OSError\<close>, so a handler for \<open>OSError\<close> catches all three; \<open>ValueError\<close>
  is what \<open>datetime.replace\<close> and \<open>datetime.strptime\<close> raise, and what \<open>os.listdir\<close> and
  \<open>os.walk\<close> raise for a path with a NUL byte.

  Every exception of this type is one the program's handlers name. Three exceptions that
  no handler names are outside the model, and so are the inputs that raise them:
  \<open>OverflowError\<close> (a year or month that does not fit a C \<open>int\<close>, in \<open>datetime.replace\<close>),
  \<open>TypeError\<close> (a \<open>DateTime\<close> value that is not text, in \<open>strptime\<close>) and PIL's
  \<open>DecompressionBombError\<close> (an image above PIL's size limit, in \<open>Image.open\<close>). The model
  is of years that fit a C \<open>int\<close>, of \<open>DateTime\<close> values that are text, and of images
  that \<open>Image.open\<close> either opens or refuses with an \<open>OSError\<close>.
\<close>

datatype py_exn = FileNotFoundError | NotADirectoryError | OSError | ValueError

fun is_OSError :: "py_exn \<Rightarrow> bool" where
  "is_OSError FileNotFoundError = True"
| "is_OSError NotADirectoryError = True"
| "is_OSError OSError = True"
| "is_OSError ValueError = False"

section \<open>Timestamps: \<open>datetime\<close> and \<open>datetime.replace\<close>\<close>

text \<open>
  A naive \<open>datetime.datetime\<close> object: the program only builds naive ones
  (\<open>strptime\<close> without \<open>%z\<close>, \<open>fromtimestamp\<close> without \<open>tz\<close>).
\<close>

record datetime =
  year :: int
  month :: int
  day :: int
  hour :: int
  minute :: int
  second :: int
  microsecond :: int

definition MINYEAR :: int where "MINYEAR = 1"
definition MAXYEAR :: int where "MAXYEAR = 9999"

text \<open>\<open>_is_leap\<close>: \<open>year % 4 == 0 and (year % 100 != 0 or year % 400 == 0)\<close>.\<close>

definition is_leap :: "int \<Rightarrow> bool" where
  "is_leap y = (y mod 4 = 0 \<and> (y mod 100 \<noteq> 0 \<or> y mod 400 = 0))"

text \<open>\<open>_DAYS_IN_MONTH = [-1, 31, 28, 31, 30, 31, 30, 31, 31, 30, 31, 30, 31]\<close>.\<close>

definition DAYS_IN_MONTH :: "int list" where
  "DAYS_IN_MONTH = [-1, 31, 28, 31, 30, 31, 30, 31, 31, 30, 31, 30, 31]"

text \<open>\<open>_days_in_month(year, month)\<close>; it is only called with \<open>1 <= month <= 12\<close>.\<close>

definition days_in_month :: "int \<Rightarrow> int \<Rightarrow> int" where
  "days_in_month y m = (if m = 2 \<and> is_leap y then 29 else DAYS_IN_MONTH ! nat m)"

text \<open>
  The constructor \<open>datetime(year, month, day, hour, minute, second, microsecond)\<close> with the
  checks of \<open>_check_date_fields\<close> and \<open>_check_time_fields\<close>, each raising \<open>ValueError\<close>.
  This is the constructor on arguments that fit a C \<open>int\<close>; the theorems below that
  depend on the kind of the error keep the year in \<open>MINYEAR..MAXYEAR\<close> and the month in
  \<open>1..12\<close>.
\<close>

definition datetime_new :: "int \<Rightarrow> int \<Rightarrow> int \<Rightarrow> int \<Rightarrow> int \<Rightarrow> int \<Rightarrow> int \<Rightarrow> py_exn + datetime" where
  "datetime_new y m d hh mm ss us =
     (if \<not> (MINYEAR \<le> y \<and> y \<le> MAXYEAR) then Inl ValueError
      else if \<not> (1 \<le> m \<and> m \<le> 12) then Inl ValueError
      else if \<not> (1 \<le> d \<and> d \<le> days_in_month y m) then Inl ValueError
      else if \<not> (0 \<le> hh \<and> hh \<le> 23) then Inl ValueError
      else if \<not> (0 \<le> mm \<and> mm \<le> 59) then Inl ValueError
      else if \<not> (0 \<le> ss \<and> ss \<le> 59) then Inl ValueError
      else if \<not> (0 \<le> us \<and> us \<le> 999999) then Inl ValueError
      else Inr \<lparr>year = y, month = m, day = d, hour = hh, minute = mm, second = ss,
                microsecond = us\<rparr>)"

text \<open>
  \<open>self.replace(year=..., month=...)\<close>: a keyword that is not given (\<open>None\<close>) takes the
  field of \<open>self\<close>, and the result is built by the constructor, which checks it again.
\<close>

definition datetime_replace :: "datetime \<Rightarrow> int option \<Rightarrow> int option \<Rightarrow> py_exn + datetime" where
  "datetime_replace self y m =
     datetime_new (case y of None \<Rightarrow> year self | Some y' \<Rightarrow> y')
                  (case m of None \<Rightarrow> month self | Some m' \<Rightarrow> m')
                  (day self) (hour self) (minute self) (second self) (microsecond self)"

text \<open>
  The date transform, lines 88--91 of \<open>modify_image_datetime\<close> (and again lines 208--211 and
  357--360): \<open>new_datetime = current_datetime.replace(year=new_year, month=new_month)\<close>
  when \<open>new_month is not None\<close>, else \<open>current_datetime.replace(year=new_year)\<close>.
\<close>

definition new_datetime :: "datetime \<Rightarrow> int \<Rightarrow> int option \<Rightarrow> py_exn + datetime" where
  "new_datetime current_datetime new_year new_month =
     (case new_month of
        Some m \<Rightarrow> datetime_replace current_datetime (Some new_year) (Some m)
      | None \<Rightarrow> datetime_replace current_datetime (Some new_year) None)"

text \<open>The objects of class \<open>datetime\<close>: the field values its constructor accepts.\<close>

definition valid_datetime :: "datetime \<Rightarrow> bool" where
  "valid_datetime t =
     (MINYEAR \<le> year t \<and> year t \<le> MAXYEAR \<and> 1 \<le> month t \<and> month t \<le> 12 \<and>
      1 \<le> day t \<and> day t \<le> days_in_month (year t) (month t) \<and>
      0 \<le> hour t \<and> hour t \<le> 23 \<and> 0 \<le> minute t \<and> minute t \<le> 59 \<and>
      0 \<le> second t \<and> second t \<le> 59 \<and> 0 \<le> microsecond t \<and> microsecond t \<le> 999999)"

text \<open>The month the transform asks for: the given one, or the source's.\<close>

definition target_month :: "datetime \<Rightarrow> int option \<Rightarrow> int" where
  "target_month t new_month = (case new_month of None \<Rightarrow> month t | Some m \<Rightarrow> m)"

section \<open>Paths: the functions of \<open>os.path\<close> the program calls\<close>

text \<open>\<open>s.rfind(c)\<close>: the index of the last occurrence of \<open>c\<close>, or \<open>-1\<close>.\<close>

fun rfind_aux :: "string \<Rightarrow> char \<Rightarrow> int \<Rightarrow> int \<Rightarrow> int" where
  "rfind_aux [] c i r = r"
| "rfind_aux (x # xs) c i r = rfind_aux xs c (i + 1) (if x = c then i else r)"

definition rfind :: "string \<Rightarrow> char \<Rightarrow> int" where
  "rfind s c = rfind_aux s c 0 (- 1)"

text \<open>
  \<open>posixpath.join(a, b)\<close>: \<open>b\<close> alone when it starts with the separator, \<open>a + b\<close> when
  \<open>a\<close> is empty or ends with the separator, \<open>a + '/' + b\<close> otherwise.
\<close>

definition path_join :: "string \<Rightarrow> string \<Rightarrow> string" where
  "path_join a b =
     (if b \<noteq> [] \<and> hd b = CHR ''/'' then b
      else if a = [] \<or> last a = CHR ''/'' then a @ b
      else a @ ''/'' @ b)"

text \<open>
  \<open>posixpath.splitext(p)\<close> (\<open>genericpath._splitext\<close>): the extension starts at the last
  dot, when that dot is after the last separator and some character between the separator
  and the dot is not a dot (the \<open>while\<close> loop over \<open>filenameIndex\<close>); otherwise it is empty.
\<close>

definition splitext :: "string \<Rightarrow> string \<times> string" where
  "splitext p =
     (let sepIndex = rfind p (CHR ''/'');
          dotIndex = rfind p (CHR ''.'')
      in if dotIndex > sepIndex \<and>
            list_ex (\<lambda>c. c \<noteq> CHR ''.'')
              (take (nat (dotIndex - (sepIndex + 1))) (drop (nat (sepIndex + 1)) p))
         then (take (nat dotIndex) p, drop (nat dotIndex) p)
         else (p, []))"

text \<open>\<open>posixpath.basename(p)\<close>: \<open>p[p.rfind('/') + 1:]\<close>.\<close>

definition basename :: "string \<Rightarrow> string" where
  "basename p = drop (nat (rfind p (CHR ''/'') + 1)) p"

text \<open>
  \<open>posixpath.dirname(p)\<close>: \<open>head = p[:p.rfind('/') + 1]\<close>, with its trailing separators
  stripped unless it consists of separators only.
\<close>

definition dirname :: "string \<Rightarrow> string" where
  "dirname p =
     (let head = take (nat (rfind p (CHR ''/'') + 1)) p
      in if head \<noteq> [] \<and> head \<noteq> replicate (length head) (CHR ''/'')
         then rev (dropWhile (\<lambda>c. c = CHR ''/'') (rev head))
         else head)"

section \<open>File classifier\<close>

text \<open>\<open>jpeg_extensions = {'.jpg', '.jpeg', '.JPG', '.JPEG'}\<close>.\<close>

definition jpeg_extensions :: "string set" where
  "jpeg_extensions = {''.jpg'', ''.jpeg'', ''.JPG'', ''.JPEG''}"

text \<open>\<open>is_jpeg_file\<close>: \<open>os.path.splitext(file_path)[1] in jpeg_extensions\<close>.\<close>

definition is_jpeg_file :: "string \<Rightarrow> bool" where
  "is_jpeg_file file_path = (snd (splitext file_path) \<in> jpeg_extensions)"

text \<open>
  The classifier in the words of the specification: the extension matches \<open>.jpg\<close> or
  \<open>.jpeg\<close> without regard to the case of its letters. \<open>ascii_lower\<close> and \<open>ascii_upper\<close>
  change the case of the letters \<open>A\<close>--\<open>Z\<close> and \<open>a\<close>--\<open>z\<close> and nothing else.
\<close>

definition ascii_lower :: "char \<Rightarrow> char" where
  "ascii_lower c =
     (case map_of (zip ''ABCDEFGHIJKLMNOPQRSTUVWXYZ'' ''abcdefghijklmnopqrstuvwxyz'') c of
        Some l \<Rightarrow> l | None \<Rightarrow> c)"

definition ascii_upper :: "char \<Rightarrow> char" where
  "ascii_upper c =
     (case map_of (zip ''abcdefghijklmnopqrstuvwxyz'' ''ABCDEFGHIJKLMNOPQRSTUVWXYZ'') c of
        Some u \<Rightarrow> u | None \<Rightarrow> c)"

definition is_jpeg_file_spec :: "string \<Rightarrow> bool" where
  "is_jpeg_file_spec file_path =
     (map ascii_lower (snd (splitext file_path)) \<in> {''.jpg'', ''.jpeg''})"

section \<open>The file system and the external collaborators\<close>

text \<open>A directory tree: a regular file, or a directory with its entries in listing order.\<close>

datatype fsnode = File | Dir "(string \<times> fsnode) list"

text \<open>
  The error numbers of the system for a path at which nothing is found: \<open>ENOENT\<close> (the
  name is absent), \<open>ENOTDIR\<close> (a component of the path is a regular file), or another one
  (\<open>ENAMETOOLONG\<close>, \<open>EACCES\<close>, \<open>ELOOP\<close>), with the subclass of \<open>OSError\<close> that Python raises
  for each.
\<close>

datatype os_errno = ENOENT | ENOTDIR | EOTHER

fun OSError_of_errno :: "os_errno \<Rightarrow> py_exn" where
  "OSError_of_errno ENOENT = FileNotFoundError"
| "OSError_of_errno ENOTDIR = NotADirectoryError"
| "OSError_of_errno EOTHER = OSError"

text \<open>A path with an embedded NUL byte: the system calls refuse it with \<open>ValueError\<close>.\<close>

definition has_nul :: "string \<Rightarrow> bool" where
  "has_nul p = (CHR 0x00 \<in> set p)"

fun is_Dir :: "fsnode \<Rightarrow> bool" where
  "is_Dir File = False"
| "is_Dir (Dir es) = True"

text \<open>
  What the program can see of a file it opens as an image.
  \<^item> \<open>readable\<close>: \<open>Image.open\<close> succeeds (the file is not corrupt and may be read);
  \<^item> \<open>format\<close>: \<open>image.format\<close>;
  \<^item> \<open>exif_0th\<close>: the items of \<open>image.getexif()\<close>, each tag under its name in
    \<open>PIL.ExifTags.TAGS\<close>, with its text;
  \<^item> \<open>exif_Exif\<close>: the tags of the Exif IFD, which \<open>piexif\<close> writes;
  \<^item> \<open>pixels\<close>: the encoded image data;
  \<^item> \<open>mtime\<close>: the last-modified time, as \<open>datetime.fromtimestamp(os.path.getmtime(path))\<close>
    reads it.
\<close>

record image_file =
  readable :: bool
  format :: string
  exif_0th :: "(string \<times> string) list"
  exif_Exif :: "(string \<times> string) list"
  pixels :: nat
  mtime :: datetime

text \<open>
  The world the program runs in. The state it changes: \<open>files\<close> (the files by path) and
  \<open>made_dirs\<close> (the directories \<open>os.makedirs\<close> made). What it only reads:
  \<^item> \<open>tree\<close>: the directory structure found at a path (\<open>None\<close>: no such path, which is
    when \<open>os.path.exists\<close> is false);
  \<^item> \<open>errno\<close>: the error number of the system for a path at which nothing is found;
  \<^item> \<open>writable\<close>: a file may be written or have its times set at this path;
  \<^item> \<open>can_makedirs\<close>: \<open>os.makedirs(path, exist_ok=True)\<close> succeeds;
  \<^item> \<open>strptime\<close>: \<open>datetime.strptime(value, "%Y:%m:%d %H:%M:%S")\<close>, \<open>None\<close> where it raises
    \<open>ValueError\<close>;
  \<^item> \<open>strftime\<close>: \<open>new_datetime.strftime("%Y:%m:%d %H:%M:%S")\<close>;
  \<^item> \<open>relpath\<close>: \<open>os.path.relpath(path, start)\<close>;
  \<^item> \<open>jpeg_encode\<close>: the file \<open>image.save(..., format='JPEG', quality=95)\<close> writes;
  \<^item> \<open>piexif_installed\<close>: \<open>import piexif\<close> succeeds.
\<close>

record world =
  tree :: "string \<Rightarrow> fsnode option"
  errno :: "string \<Rightarrow> os_errno"
  files :: "string \<Rightarrow> image_file option"
  made_dirs :: "string list"
  writable :: "string \<Rightarrow> bool"
  can_makedirs :: "string \<Rightarrow> bool"
  strptime :: "string \<Rightarrow> datetime option"
  strftime :: "datetime \<Rightarrow> string"
  relpath :: "string \<Rightarrow> string \<Rightarrow> string"
  jpeg_encode :: "image_file \<Rightarrow> image_file"
  piexif_installed :: bool

definition os_path_exists :: "world \<Rightarrow> string \<Rightarrow> bool" where
  "os_path_exists w p = (tree w p \<noteq> None)"

definition os_path_isdir :: "world \<Rightarrow> string \<Rightarrow> bool" where
  "os_path_isdir w p = (case tree w p of Some (Dir es) \<Rightarrow> True | _ \<Rightarrow> False)"

definition os_path_isfile :: "world \<Rightarrow> string \<Rightarrow> bool" where
  "os_path_isfile w p = (tree w p = Some File)"

text \<open>
  The exception of \<open>os.listdir\<close> and \<open>os.scandir\<close> for a path at which nothing is found:
  \<open>ValueError\<close> for an embedded NUL byte, else the \<open>OSError\<close> of the system's error number.
  (A path with a NUL byte names nothing, so it is only looked at when nothing is found.)
\<close>

definition lookup_error :: "world \<Rightarrow> string \<Rightarrow> py_exn" where
  "lookup_error w p = (if has_nul p then ValueError else OSError_of_errno (errno w p))"

text \<open>\<open>os.listdir(path)\<close>: the names of the entries, or the exception of a bad path.\<close>

definition os_listdir :: "world \<Rightarrow> string \<Rightarrow> py_exn + string list" where
  "os_listdir w p =
     (case tree w p of
        None \<Rightarrow> Inl (lookup_error w p)
      | Some File \<Rightarrow> Inl NotADirectoryError
      | Some (Dir es) \<Rightarrow> Inr (map fst es))"

text \<open>
  \<open>os.walk(top)\<close>, top-down: the triple \<open>(top, dirs, files)\<close> of a directory, then the walk
  of each of its subdirectories at \<open>join(top, name)\<close>. With \<open>onerror=None\<close>, the default,
  the \<open>OSError\<close> of a directory that cannot be listed is caught and the directory skipped,
  so a path that is missing or is not a directory yields nothing. The handler of \<open>os.walk\<close>
  is \<open>except OSError\<close>: the \<open>ValueError\<close> of a path with a NUL byte is not caught.
\<close>

fun walk :: "string \<Rightarrow> fsnode \<Rightarrow> (string \<times> string list \<times> string list) list" where
  "walk dirpath File = []"
| "walk dirpath (Dir es) =
     (dirpath, map fst (filter (\<lambda>e. is_Dir (snd e)) es),
           map fst (filter (\<lambda>e. \<not> is_Dir (snd e)) es))
     # concat (map (\<lambda>e. if is_Dir (snd e) then walk (path_join dirpath (fst e)) (snd e) else []) es)"

definition os_walk ::
  "world \<Rightarrow> string \<Rightarrow> py_exn + (string \<times> string list \<times> string list) list" where
  "os_walk w dirpath =
     (case tree w dirpath of
        None \<Rightarrow> if is_OSError (lookup_error w dirpath) then Inr [] else Inl (lookup_error w dirpath)
      | Some node \<Rightarrow> Inr (walk dirpath node))"

section \<open>File discovery\<close>

text \<open>
  \<open>find_jpeg_files(folder_path, recursive)\<close>. The recursive branch joins every file name
  of every triple of \<open>os.walk\<close> to its root and keeps the paths the classifier accepts; the
  other branch does so for the names of \<open>os.listdir\<close> that \<open>os.path.isfile\<close> accepts. The
  result is \<open>sorted(jpeg_files)\<close>: strings compare lexicographically, character by character.
\<close>

definition find_jpeg_files :: "world \<Rightarrow> string \<Rightarrow> bool \<Rightarrow> py_exn + string list" where
  "find_jpeg_files w folder_path recursive =
     (if recursive then
        (case os_walk w folder_path of
           Inl e \<Rightarrow> Inl e
         | Inr triples \<Rightarrow>
             Inr (sort (concat (map (\<lambda>(r, ds, fs). filter is_jpeg_file (map (path_join r) fs))
                                    triples))))
      else
        (case os_listdir w folder_path of
           Inl e \<Rightarrow> Inl e
         | Inr names \<Rightarrow>
             Inr (sort (filter (\<lambda>file_path. os_path_isfile w file_path \<and> is_jpeg_file file_path)
                               (map (path_join folder_path) names)))))"

text \<open>
  The files of a folder in the words of the specification: the direct children that are
  files, or, recursively, the files of the folder and of all its subdirectories.
\<close>

fun files_below :: "string \<Rightarrow> fsnode \<Rightarrow> string list" where
  "files_below dirpath File = []"
| "files_below dirpath (Dir es) =
     concat (map (\<lambda>e. case snd e of
                          File \<Rightarrow> [path_join dirpath (fst e)]
                        | Dir es' \<Rightarrow> files_below (path_join dirpath (fst e)) (snd e)) es)"

definition direct_files :: "string \<Rightarrow> (string \<times> fsnode) list \<Rightarrow> string list" where
  "direct_files dirpath es = map (\<lambda>e. path_join dirpath (fst e)) (filter (\<lambda>e. snd e = File) es)"

definition folder_files :: "string \<Rightarrow> (string \<times> fsnode) list \<Rightarrow> bool \<Rightarrow> string list" where
  "folder_files dirpath es recursive =
     (if recursive then files_below dirpath (Dir es) else direct_files dirpath es)"

text \<open>
  The directory listed at \<open>dirpath\<close> and the paths of its entries agree: the entry \<open>name\<close>
  of kind \<open>c\<close> is what is found at \<open>join(dirpath, name)\<close>.
\<close>

definition entries_resolve :: "world \<Rightarrow> string \<Rightarrow> (string \<times> fsnode) list \<Rightarrow> bool" where
  "entries_resolve w dirpath es =
     list_all (\<lambda>e. tree w (path_join dirpath (fst e)) = Some (snd e)) es"

section \<open>Metadata reader\<close>

text \<open>\<open>Image.open(path)\<close>: the image, or the \<open>OSError\<close> of a missing or unreadable file.\<close>

definition Image_open :: "world \<Rightarrow> string \<Rightarrow> py_exn + image_file" where
  "Image_open w p =
     (case files w p of
        None \<Rightarrow> Inl FileNotFoundError
      | Some f \<Rightarrow> if readable f then Inr f else Inl OSError)"

text \<open>\<open>os.path.getmtime(path)\<close> read through \<open>datetime.fromtimestamp\<close>.\<close>

definition os_path_getmtime :: "world \<Rightarrow> string \<Rightarrow> py_exn + datetime" where
  "os_path_getmtime w p =
     (case files w p of None \<Rightarrow> Inl FileNotFoundError | Some f \<Rightarrow> Inr (mtime f))"

text \<open>
  The body of the \<open>try\<close> of \<open>get_image_datetime\<close>: open the image, take the first item whose
  tag name is \<open>"DateTime"\<close> and parse its text; \<open>None\<close> when no item has that name.
\<close>

definition get_image_datetime_try :: "world \<Rightarrow> string \<Rightarrow> py_exn + datetime option" where
  "get_image_datetime_try w image_path =
     (case Image_open w image_path of
        Inl e \<Rightarrow> Inl e
      | Inr img \<Rightarrow>
          (case find (\<lambda>item. fst item = ''DateTime'') (exif_0th img) of
             Some item \<Rightarrow>
               (case strptime w (snd item) of
                  None \<Rightarrow> Inl ValueError
                | Some d \<Rightarrow> Inr (Some d))
           | None \<Rightarrow> Inr None))"

text \<open>
  \<open>get_image_datetime\<close>: the handler \<open>except (OSError, ValueError, KeyError)\<close> prints the
  error and returns \<open>None\<close>. The \<open>try\<close> body of the model raises an \<open>OSError\<close> (from
  \<open>Image.open\<close>) or the \<open>ValueError\<close> of \<open>strptime\<close>, and the handler names both.
\<close>

definition get_image_datetime :: "world \<Rightarrow> string \<Rightarrow> datetime option" where
  "get_image_datetime w image_path =
     (case get_image_datetime_try w image_path of Inl e \<Rightarrow> None | Inr r \<Rightarrow> r)"

text \<open>
  The source timestamp, lines 79--85 of \<open>modify_image_datetime\<close> (and 304--310, 317--323 of
  \<open>main\<close>): the datetime of the reader, or the file's modification time when the reader
  returns \<open>None\<close>.
\<close>

definition current_datetime :: "world \<Rightarrow> string \<Rightarrow> py_exn + datetime" where
  "current_datetime w image_path =
     (case get_image_datetime w image_path of
        None \<Rightarrow> os_path_getmtime w image_path
      | Some d \<Rightarrow> Inr d)"

section \<open>Metadata writer\<close>

text \<open>
  \<open>image.save(output_path, format='JPEG', quality=95)\<close>: writes the encoded image, or
  raises \<open>OSError\<close> and writes nothing.
\<close>

definition image_save :: "world \<Rightarrow> image_file \<Rightarrow> string \<Rightarrow> py_exn + world" where
  "image_save w img output_path =
     (if writable w output_path
      then Inr (w\<lparr>files := (files w)(output_path \<mapsto> jpeg_encode w img)\<rparr>)
      else Inl OSError)"

text \<open>
  \<open>update_exif_with_piexif\<close>: sets the three datetime fields of the file to the text of
  \<open>new_datetime\<close>. Its handlers (\<open>ImportError\<close>; \<open>ValueError\<close>, \<open>KeyError\<close>, \<open>OSError\<close>) only
  print, so it returns normally and then has written nothing.
\<close>

definition update_exif_with_piexif :: "world \<Rightarrow> string \<Rightarrow> datetime \<Rightarrow> world" where
  "update_exif_with_piexif w image_path new_dt =
     (if \<not> piexif_installed w then w
      else
        (case files w image_path of
           None \<Rightarrow> w
         | Some f \<Rightarrow>
             if \<not> readable f \<or> \<not> writable w image_path then w
             else
               (let datetime_str = strftime w new_dt
                in w\<lparr>files := (files w)(image_path \<mapsto>
                     f\<lparr>exif_0th := AList.update ''DateTime'' datetime_str (exif_0th f),
                       exif_Exif := AList.update ''DateTimeDigitized'' datetime_str
                                      (AList.update ''DateTimeOriginal'' datetime_str
                                         (exif_Exif f))\<rparr>)\<rparr>)))"

text \<open>
  Lines 114--119: \<open>os.utime(output_path, (new_timestamp, new_timestamp))\<close>; its \<open>OSError\<close>
  is printed and nothing else happens. The time is kept as the \<open>datetime\<close> it was set from:
  this is \<open>new_datetime.timestamp()\<close> where that conversion is defined and exact, as it is
  for the years \<open>main\<close> accepts (1900 to 2100) outside the hours a daylight-saving change
  skips or repeats.
\<close>

definition os_utime :: "world \<Rightarrow> string \<Rightarrow> datetime \<Rightarrow> world" where
  "os_utime w output_path new_dt =
     (case files w output_path of
        None \<Rightarrow> w
      | Some f \<Rightarrow>
          if writable w output_path
          then w\<lparr>files := (files w)(output_path \<mapsto> f\<lparr>mtime := new_dt\<rparr>)\<rparr>
          else w)"

text \<open>
  Lines 96--121 of \<open>modify_image_datetime\<close>, after the new datetime is known: save and
  rewrite the metadata when the format is JPEG, then set the file's time; \<open>False\<close> when
  saving raises.
\<close>

definition write_back :: "world \<Rightarrow> image_file \<Rightarrow> string \<Rightarrow> datetime \<Rightarrow> bool \<times> world" where
  "write_back w img output_path new_dt =
     (if format img = ''JPEG'' then
        (case image_save w img output_path of
           Inl e \<Rightarrow> (False, w)
         | Inr w1 \<Rightarrow> (True, os_utime (update_exif_with_piexif w1 output_path new_dt) output_path new_dt))
      else (True, os_utime w output_path new_dt))"

text \<open>
  \<open>modify_image_datetime(image_path, new_year, new_month, output_path)\<close>. The handler
  \<open>except (OSError, ValueError)\<close> of the first \<open>try\<close> returns \<open>False\<close>; it catches every
  exception of \<open>py_exn\<close>.
\<close>

definition modify_image_datetime ::
  "world \<Rightarrow> string \<Rightarrow> int \<Rightarrow> int option \<Rightarrow> string option \<Rightarrow> bool \<times> world" where
  "modify_image_datetime w image_path new_year new_month output_path =
     (case Image_open w image_path of
        Inl e \<Rightarrow> (False, w)
      | Inr img \<Rightarrow>
          (case current_datetime w image_path of
             Inl e \<Rightarrow> (False, w)
           | Inr cur \<Rightarrow>
               (case new_datetime cur new_year new_month of
                  Inl e \<Rightarrow> (False, w)
                | Inr new_dt \<Rightarrow>
                    write_back w img
                      (case output_path of None \<Rightarrow> image_path | Some p \<Rightarrow> p) new_dt)))"

section \<open>Batch orchestrator\<close>

text \<open>\<open>os.makedirs(path, exist_ok=True)\<close>.\<close>

definition os_makedirs :: "world \<Rightarrow> string \<Rightarrow> py_exn + world" where
  "os_makedirs w p =
     (if can_makedirs w p then Inr (w\<lparr>made_dirs := List.insert p (made_dirs w)\<rparr>)
      else Inl OSError)"

text \<open>
  The dry-run loop of \<open>process_folder\<close>, lines 204--214: for each file the reader is
  called and, when it returns a datetime, the new datetime is computed for the report.
  No handler surrounds \<open>replace\<close> here, so its \<open>ValueError\<close> leaves the loop and the function.
\<close>

fun dry_run_files :: "world \<Rightarrow> int \<Rightarrow> int option \<Rightarrow> string list \<Rightarrow> py_exn + unit" where
  "dry_run_files w new_year new_month [] = Inr ()"
| "dry_run_files w new_year new_month (file_path # rest) =
     (case get_image_datetime w file_path of
        Some current_dt \<Rightarrow>
          (case new_datetime current_dt new_year new_month of
             Inl e \<Rightarrow> Inl e
           | Inr new_dt \<Rightarrow> dry_run_files w new_year new_month rest)
      | None \<Rightarrow> dry_run_files w new_year new_month rest)"

text \<open>
  The body of the \<open>try\<close> of the processing loop, lines 224--250, with its handler
  \<open>except (OSError, ValueError)\<close> (lines 252--254): the output path is determined, making
  directories when an output folder is given, and the file is modified. The result is
  whether the file counts as a success; a raised exception counts as an error.
\<close>

definition process_file ::
  "world \<Rightarrow> string \<Rightarrow> int \<Rightarrow> int option \<Rightarrow> string option \<Rightarrow> bool \<Rightarrow> string \<Rightarrow> bool \<times> world" where
  "process_file w folder_path new_year new_month output_folder recursive file_path =
     (case output_folder of
        None \<Rightarrow> modify_image_datetime w file_path new_year new_month None
      | Some d \<Rightarrow>
          if d = [] then modify_image_datetime w file_path new_year new_month None
          else
            (case os_makedirs w d of
               Inl e \<Rightarrow> (False, w)
             | Inr w1 \<Rightarrow>
                 if recursive then
                   (let output_path = path_join d (relpath w file_path folder_path)
                    in case os_makedirs w1 (dirname output_path) of
                         Inl e \<Rightarrow> (False, w1)
                       | Inr w2 \<Rightarrow>
                           modify_image_datetime w2 file_path new_year new_month (Some output_path))
                 else
                   modify_image_datetime w1 file_path new_year new_month
                     (Some (path_join d (basename file_path)))))"

text \<open>The processing loop, lines 221--254, with its two counters.\<close>

fun process_files ::
  "world \<Rightarrow> string \<Rightarrow> int \<Rightarrow> int option \<Rightarrow> string option \<Rightarrow> bool \<Rightarrow> string list \<Rightarrow> int \<Rightarrow> int
     \<Rightarrow> int \<times> int \<times> world" where
  "process_files w folder_path new_year new_month output_folder recursive [] success_count error_count =
     (success_count, error_count, w)"
| "process_files w folder_path new_year new_month output_folder recursive (file_path # rest)
     success_count error_count =
     (case process_file w folder_path new_year new_month output_folder recursive file_path of
        (success, w') \<Rightarrow>
          if success
          then process_files w' folder_path new_year new_month output_folder recursive rest
                 (success_count + 1) error_count
          else process_files w' folder_path new_year new_month output_folder recursive rest
                 success_count (error_count + 1))"

text \<open>
  \<open>process_folder\<close>: the returned triple \<open>(success_count, error_count, total_files)\<close>, or
  the exception that leaves the function, and the world afterwards.
\<close>

definition process_folder ::
  "world \<Rightarrow> string \<Rightarrow> int \<Rightarrow> int option \<Rightarrow> string option \<Rightarrow> bool \<Rightarrow> bool
     \<Rightarrow> (py_exn + int \<times> int \<times> int) \<times> world" where
  "process_folder w folder_path new_year new_month output_folder recursive dry_run =
     (case find_jpeg_files w folder_path recursive of
        Inl e \<Rightarrow> (Inl e, w)
      | Inr jpeg_files \<Rightarrow>
          if jpeg_files = [] then (Inr (0, 0, 0), w)
          else if dry_run then
            (case dry_run_files w new_year new_month jpeg_files of
               Inl e \<Rightarrow> (Inl e, w)
             | Inr u \<Rightarrow> (Inr (0, 0, int (length jpeg_files)), w))
          else
            (case process_files w folder_path new_year new_month output_folder recursive
                    jpeg_files 0 0 of
               (success_count, error_count, w') \<Rightarrow>
                 (Inr (success_count, error_count, int (length jpeg_files)), w')))"

section \<open>Command line\<close>

text \<open>The parsed arguments of \<open>main\<close>.\<close>

record args =
  args_path :: string
  args_new_year :: int
  args_new_month :: "int option"
  args_output :: "string option"
  args_show_current :: bool
  args_recursive :: bool
  args_dry_run :: bool

text \<open>The loop of \<open>--show-current\<close> over a folder, lines 303--310.\<close>

fun show_files :: "world \<Rightarrow> string list \<Rightarrow> py_exn + unit" where
  "show_files w [] = Inr ()"
| "show_files w (file_path # rest) =
     (case current_datetime w file_path of
        Inl e \<Rightarrow> Inl e
      | Inr current_dt \<Rightarrow> show_files w rest)"

text \<open>
  \<open>main\<close> after \<open>parse_args\<close>: the exit status (\<open>sys.exit(n)\<close>, or \<open>0\<close> when \<open>main\<close> returns),
  or the exception that nothing catches, and the world afterwards.
\<close>

definition main :: "world \<Rightarrow> args \<Rightarrow> (py_exn + int) \<times> world" where
  "main w a =
     (if \<not> os_path_exists w (args_path a) then (Inr 1, w)
      else if (case args_new_month a of None \<Rightarrow> False | Some m \<Rightarrow> \<not> (1 \<le> m \<and> m \<le> 12))
        then (Inr 1, w)
      else if args_new_year a < 1900 \<or> args_new_year a > 2100 then (Inr 1, w)
      else if args_show_current a then
        (if os_path_isdir w (args_path a) then
           (case find_jpeg_files w (args_path a) (args_recursive a) of
              Inl e \<Rightarrow> (Inl e, w)
            | Inr jpeg_files \<Rightarrow>
                if jpeg_files = [] then (Inr 1, w)
                else (case show_files w jpeg_files of
                        Inl e \<Rightarrow> (Inl e, w)
                      | Inr u \<Rightarrow> (Inr 0, w)))
         else if \<not> is_jpeg_file (args_path a) then (Inr 1, w)
         else (case current_datetime w (args_path a) of
                 Inl e \<Rightarrow> (Inl e, w)
               | Inr current_dt \<Rightarrow> (Inr 0, w)))
      else if os_path_isdir w (args_path a) then
        (case process_folder w (args_path a) (args_new_year a) (args_new_month a)
                (args_output a) (args_recursive a) (args_dry_run a) of
           (Inl e, w') \<Rightarrow> (Inl e, w')
         | (Inr (success_count, error_count, total_files), w') \<Rightarrow>
             if args_dry_run a then (Inr 0, w')
             else if error_count > 0 then (Inr 1, w')
             else (Inr 0, w'))
      else if \<not> is_jpeg_file (args_path a) then (Inr 1, w)
      else if args_dry_run a then
        (case get_image_datetime w (args_path a) of
           Some current_dt \<Rightarrow>
             (case new_datetime current_dt (args_new_year a) (args_new_month a) of
                Inl e \<Rightarrow> (Inl e, w)
              | Inr new_dt \<Rightarrow> (Inr 0, w))
         | None \<Rightarrow> (Inr 0, w))
      else
        (case modify_image_datetime w (args_path a) (args_new_year a) (args_new_month a)
                (args_output a) of
           (success, w') \<Rightarrow> if success then (Inr 0, w') else (Inr 1, w')))"

section \<open>A concrete world\<close>

text \<open>
  A folder \<open>photos\<close> with three JPEG files, a text file, a file with a mixed-case
  extension and a subfolder. \<open>a.jpg\<close> was taken on a leap day; \<open>b.JPG\<close> has no
  \<open>DateTime\<close> field; \<open>photos/broken.jpg\<close> cannot be read as an image.
\<close>

definition leap_day :: datetime where
  "leap_day = \<lparr>year = 2020, month = 2, day = 29, hour = 10, minute = 0, second = 0,
                microsecond = 0\<rparr>"

definition may_17 :: datetime where
  "may_17 = \<lparr>year = 2019, month = 5, day = 17, hour = 10, minute = 0, second = 0,
              microsecond = 0\<rparr>"

definition mtime_b :: datetime where
  "mtime_b = \<lparr>year = 2021, month = 8, day = 31, hour = 23, minute = 59, second = 58,
               microsecond = 123456\<rparr>"

definition photo :: "(string \<times> string) list \<Rightarrow> datetime \<Rightarrow> image_file" where
  "photo items t = \<lparr>readable = True, format = ''JPEG'', exif_0th = items, exif_Exif = [],
                     pixels = 0, mtime = t\<rparr>"

definition photos_dir :: "(string \<times> fsnode) list" where
  "photos_dir = [(''b.JPG'', File), (''notes.txt'', File), (''a.jpg'', File),
                 (''d.Jpg'', File), (''sub'', Dir [(''c.jpeg'', File), (''readme.md'', File)]),
                 (''broken.jpg'', File)]"

definition example_tree :: "string \<Rightarrow> fsnode option" where
  "example_tree p =
     (if p = ''photos'' then Some (Dir photos_dir)
      else if p = ''photos/sub'' then Some (Dir [(''c.jpeg'', File), (''readme.md'', File)])
      else if p \<in> {''photos/b.JPG'', ''photos/notes.txt'', ''photos/a.jpg'', ''photos/d.Jpg'',
                    ''photos/broken.jpg'', ''photos/sub/c.jpeg'', ''photos/sub/readme.md''}
        then Some File
      else None)"

definition example_files :: "string \<Rightarrow> image_file option" where
  "example_files p =
     (if p = ''photos/a.jpg'' then Some (photo [(''Make'', ''ACME''), (''DateTime'', ''2020:02:29 10:00:00'')] may_17)
      else if p = ''photos/b.JPG'' then Some (photo [(''Make'', ''ACME'')] mtime_b)
      else if p = ''photos/sub/c.jpeg'' then Some (photo [(''DateTime'', ''2019:05:17 10:00:00'')] mtime_b)
      else if p = ''photos/d.Jpg'' then Some (photo [] may_17)
      else if p \<in> {''photos/notes.txt'', ''photos/broken.jpg'', ''photos/sub/readme.md''}
        then Some ((photo [] may_17)\<lparr>readable := False\<rparr>)
      else None)"

definition example_strptime :: "string \<Rightarrow> datetime option" where
  "example_strptime v =
     (if v = ''2020:02:29 10:00:00'' then Some leap_day
      else if v = ''2019:05:17 10:00:00'' then Some may_17
      else None)"

definition example_world :: world where
  "example_world =
     \<lparr>tree = example_tree, errno = (\<lambda>p. ENOENT), files = example_files, made_dirs = [],
      writable = (\<lambda>p. True), can_makedirs = (\<lambda>p. True),
      strptime = example_strptime, strftime = (\<lambda>t. ''text''),
      relpath = (\<lambda>p start. drop (length start + 1) p),
      jpeg_encode = (\<lambda>f. f\<lparr>exif_0th := [], exif_Exif := []\<rparr>),
      piexif_installed = True\<rparr>"

definition example_args :: args where
  "example_args =
     \<lparr>args_path = ''photos'', args_new_year = 2023, args_new_month = Some 12,
      args_output = None, args_show_current = False, args_recursive = True,
      args_dry_run = True\<rparr>"

section \<open>Handlers\<close>

text \<open>
  Every exception of \<open>py_exn\<close> is an \<open>OSError\<close> or the \<open>ValueError\<close>, so the handlers
  \<open>except (OSError, ValueError)\<close> and \<open>except (OSError, ValueError, KeyError)\<close> catch
  whatever their \<open>try\<close> raises; this is why \<open>get_image_datetime\<close>,
  \<open>modify_image_datetime\<close> and \<open>process_file\<close> return a plain value.
\<close>

lemma handlers_catch_all: "is_OSError e \<or> e = ValueError"
  by (cases e) simp_all

section \<open>The date transform\<close>

lemma datetime_new_eq:
  "datetime_new y m d hh mm ss us =
     (if valid_datetime \<lparr>year = y, month = m, day = d, hour = hh, minute = mm, second = ss,
                microsecond = us\<rparr>
      then Inr \<lparr>year = y, month = m, day = d, hour = hh, minute = mm, second = ss,
                microsecond = us\<rparr>
      else Inl ValueError)"
  unfolding datetime_new_def valid_datetime_def by simp

lemma datetime_update_eq:
  "(t::datetime)\<lparr>year := y, month := m\<rparr> =
     \<lparr>year = y, month = m, day = day t, hour = hour t, minute = minute t,
      second = second t, microsecond = microsecond t\<rparr>"
  by simp

lemma new_datetime_eq:
  "new_datetime t y m =
     (if valid_datetime (t\<lparr>year := y, month := target_month t m\<rparr>)
      then Inr (t\<lparr>year := y, month := target_month t m\<rparr>)
      else Inl ValueError)"
  unfolding datetime_update_eq
  by (cases m) (simp_all add: new_datetime_def datetime_replace_def datetime_new_eq target_month_def)

lemma valid_datetime_subst:
  "valid_datetime t \<Longrightarrow> MINYEAR \<le> y \<Longrightarrow> y \<le> MAXYEAR \<Longrightarrow> 1 \<le> m \<Longrightarrow> m \<le> 12 \<Longrightarrow>
   day t \<le> days_in_month y m \<Longrightarrow> valid_datetime (t\<lparr>year := y, month := m\<rparr>)"
  by (simp add: valid_datetime_def)

lemma new_datetime_overflow:
  "days_in_month Y (target_month cur M) < day cur \<Longrightarrow> new_datetime cur Y M = Inl ValueError"
  by (simp add: new_datetime_eq valid_datetime_def)

text \<open>
  Claim C1. For every source timestamp, every target year the constructor accepts and every
  optional target month in 1..12 such that the source day exists in the target year and
  month, the date transform returns a timestamp with the day, hour, minute, second (and
  microsecond) of the source, the requested year, and the requested month when one is
  given, the source's month otherwise.
\<close>

theorem new_datetime_preserves_fields:
  assumes "valid_datetime t" and "MINYEAR \<le> y" and "y \<le> MAXYEAR"
    and "case m of None \<Rightarrow> True | Some m' \<Rightarrow> 1 \<le> m' \<and> m' \<le> 12"
    and "day t \<le> days_in_month y (target_month t m)"
  shows "\<exists>t'. new_datetime t y m = Inr t' \<and> day t' = day t \<and> hour t' = hour t \<and>
           minute t' = minute t \<and> second t' = second t \<and> microsecond t' = microsecond t \<and>
           year t' = y \<and> month t' = target_month t m"
proof -
  have "1 \<le> target_month t m \<and> target_month t m \<le> 12"
    using assms(1,4) by (cases m) (simp_all add: target_month_def valid_datetime_def)
  with assms have "valid_datetime (t\<lparr>year := y, month := target_month t m\<rparr>)"
    by (simp add: valid_datetime_subst)
  then show ?thesis by (simp add: new_datetime_eq)
qed

text \<open>
  Claim C2. The date transform is idempotent: when it returns a timestamp for a source
  timestamp, target year and optional target month, applying it to that timestamp with the
  same year and month returns the same timestamp.
\<close>

theorem new_datetime_idempotent:
  assumes "new_datetime t y m = Inr t'"
  shows "new_datetime t' y m = Inr t'"
proof -
  from assms have v: "valid_datetime t'" and e: "t' = t\<lparr>year := y, month := target_month t m\<rparr>"
    by (auto simp add: new_datetime_eq split: if_splits)
  have "target_month t' m = month t'"
    using e by (cases m) (simp_all add: target_month_def)
  moreover have "year t' = y" using e by simp
  ultimately have "t'\<lparr>year := y, month := target_month t' m\<rparr> = t'" by simp
  with v show ?thesis by (simp add: new_datetime_eq)
qed


lemma may_17_valid: "valid_datetime may_17"
  by (simp add: valid_datetime_def may_17_def MINYEAR_def MAXYEAR_def days_in_month_def
      DAYS_IN_MONTH_def is_leap_def)

theorem new_datetime_preserves_fields_witness:
  "\<exists>t'. new_datetime may_17 2023 (Some 12) = Inr t' \<and> day t' = 17 \<and> hour t' = 10 \<and>
         minute t' = 0 \<and> second t' = 0 \<and> microsecond t' = 0 \<and> year t' = 2023 \<and> month t' = 12"
proof -
  have a: "MINYEAR \<le> 2023" and b: "2023 \<le> MAXYEAR" by (simp_all add: MINYEAR_def MAXYEAR_def)
  have c: "case Some (12::int) of None \<Rightarrow> True | Some m' \<Rightarrow> 1 \<le> m' \<and> m' \<le> 12" by simp
  have d: "day may_17 \<le> days_in_month 2023 (target_month may_17 (Some 12))"
    by (simp add: may_17_def target_month_def days_in_month_def DAYS_IN_MONTH_def)
  from new_datetime_preserves_fields [OF may_17_valid a b c d]
  show ?thesis by (simp add: may_17_def target_month_def)
qed

theorem new_datetime_idempotent_witness:
  "new_datetime (may_17\<lparr>year := 2023, month := 12\<rparr>) 2023 (Some 12)
     = Inr (may_17\<lparr>year := 2023, month := 12\<rparr>)"
proof -
  have "valid_datetime (may_17\<lparr>year := 2023, month := 12\<rparr>)"
    by (simp add: valid_datetime_def may_17_def MINYEAR_def MAXYEAR_def days_in_month_def
      DAYS_IN_MONTH_def)
  then have "new_datetime may_17 2023 (Some 12) = Inr (may_17\<lparr>year := 2023, month := 12\<rparr>)"
    by (simp add: new_datetime_eq target_month_def)
  then show ?thesis by (rule new_datetime_idempotent)
qed

section \<open>Calendar overflow in a batch\<close>

lemma os_makedirs_files:
  "os_makedirs w d = Inr w1 \<Longrightarrow> files w1 = files w \<and> strptime w1 = strptime w"
  by (auto simp add: os_makedirs_def split: if_splits)

lemma current_datetime_cong:
  assumes "files w1 = files w" and "strptime w1 = strptime w"
  shows "current_datetime w1 p = current_datetime w p"
proof -
  have a: "Image_open w1 p = Image_open w p"
    using assms by (simp add: Image_open_def)
  have b: "os_path_getmtime w1 p = os_path_getmtime w p"
    using assms by (simp add: os_path_getmtime_def)
  have c: "get_image_datetime_try w1 p = get_image_datetime_try w p"
    unfolding get_image_datetime_try_def a assms(2) ..
  show ?thesis
    unfolding current_datetime_def get_image_datetime_def b c ..
qed

lemma modify_overflow:
  "current_datetime w p = Inr cur \<Longrightarrow> new_datetime cur Y M = Inl e \<Longrightarrow>
   modify_image_datetime w p Y M out = (False, w)"
  by (simp add: modify_image_datetime_def split: sum.splits)

lemma process_file_overflow:
  assumes "current_datetime w p = Inr cur" and "new_datetime cur Y M = Inl e"
  shows "\<exists>w'. process_file w folder Y M outf r p = (False, w') \<and> files w' = files w"
proof -
  have m: "modify_image_datetime w1 p Y M out = (False, w1)"
    if "files w1 = files w" "strptime w1 = strptime w" for w1 out
    using that assms current_datetime_cong [of w1 w p] by (simp add: modify_overflow)
  show ?thesis
  proof (cases outf)
    case None
    then show ?thesis using m [of w] by (simp add: process_file_def)
  next
    case (Some d)
    show ?thesis
    proof (cases "d = []")
      case True
      then show ?thesis using Some m [of w] by (simp add: process_file_def)
    next
      case False
      show ?thesis
      proof (cases "os_makedirs w d")
        case (Inl x)
        then show ?thesis using Some False by (simp add: process_file_def)
      next
        case (Inr w1)
        note w1 = os_makedirs_files [OF Inr]
        show ?thesis
        proof (cases r)
          case False
          then show ?thesis using Some \<open>d \<noteq> []\<close> Inr w1 m [of w1]
            by (simp add: process_file_def)
        next
          case True
          show ?thesis
          proof (cases "os_makedirs w1 (dirname (path_join d (relpath w p folder)))")
            case (Inl x)
            then show ?thesis using Some \<open>d \<noteq> []\<close> Inr w1 True
              by (simp add: process_file_def Let_def)
          next
            case (Inr w2)
            from os_makedirs_files [OF Inr] w1 have "files w2 = files w" "strptime w2 = strptime w"
              by simp_all
            then show ?thesis using Some \<open>d \<noteq> []\<close> \<open>os_makedirs w d = Inr w1\<close> True Inr m [of w2]
              by (simp add: process_file_def Let_def)
          qed
        qed
      qed
    qed
  qed
qed

text \<open>
  Claim C3. Take a file that opens as an image and whose source timestamp (the datetime of
  the reader, or else the modification time; a \<open>datetime\<close> object, so its fields are
  valid) has a day that does not exist in the target
  year and month, for a target year in \<open>MINYEAR..MAXYEAR\<close> and a target month, when one is
  given, in \<open>1..12\<close>. Then the date transform raises \<open>ValueError\<close> and produces no timestamp;
  \<open>modify_image_datetime\<close> returns \<open>False\<close> and leaves the world as it was; and the
  processing loop of a batch run (lines 221--254) counts the file as an error and goes on
  with the next file, no file having been changed. (A dry run does not enter this loop;
  what its own loop does with such a file is shown under Claim C10.)
\<close>

theorem invalid_date_counted_as_failed:
  assumes "Image_open w file_path = Inr img"
    and "current_datetime w file_path = Inr cur" and "valid_datetime cur"
    and "MINYEAR \<le> new_year" and "new_year \<le> MAXYEAR"
    and "case new_month of None \<Rightarrow> True | Some m \<Rightarrow> 1 \<le> m \<and> m \<le> 12"
    and "days_in_month new_year (target_month cur new_month) < day cur"
  shows "new_datetime cur new_year new_month = Inl ValueError \<and>
         modify_image_datetime w file_path new_year new_month output_path = (False, w) \<and>
         (\<exists>w'. files w' = files w \<and>
            process_files w folder_path new_year new_month output_folder recursive
              (file_path # rest) success_count error_count =
            process_files w' folder_path new_year new_month output_folder recursive
              rest success_count (error_count + 1))"
proof -
  have n: "new_datetime cur new_year new_month = Inl ValueError"
    using assms(7) by (rule new_datetime_overflow)
  obtain w' where "process_file w folder_path new_year new_month output_folder recursive file_path
      = (False, w')" and "files w' = files w"
    using process_file_overflow [OF assms(2) n] by blast
  then have "\<exists>w'. files w' = files w \<and>
            process_files w folder_path new_year new_month output_folder recursive
              (file_path # rest) success_count error_count =
            process_files w' folder_path new_year new_month output_folder recursive
              rest success_count (error_count + 1)"
    by auto
  with n modify_overflow [OF assms(2) n] show ?thesis by simp
qed

lemma Image_open_a:
  "Image_open example_world ''photos/a.jpg''
     = Inr (photo [(''Make'', ''ACME''), (''DateTime'', ''2020:02:29 10:00:00'')] may_17)"
  by (simp add: Image_open_def example_world_def example_files_def photo_def)

lemma leap_day_valid: "valid_datetime leap_day"
  by (simp add: valid_datetime_def leap_day_def MINYEAR_def MAXYEAR_def days_in_month_def
      is_leap_def)

lemma current_datetime_a: "current_datetime example_world ''photos/a.jpg'' = Inr leap_day"
  by (simp add: current_datetime_def get_image_datetime_def get_image_datetime_try_def
      Image_open_def example_world_def example_files_def photo_def example_strptime_def)

theorem invalid_date_counted_as_failed_witness:
  "new_datetime leap_day 2023 (Some 2) = Inl ValueError \<and>
   modify_image_datetime example_world ''photos/a.jpg'' 2023 (Some 2) None = (False, example_world) \<and>
   (\<exists>w'. files w' = files example_world \<and>
      process_files example_world ''photos'' 2023 (Some 2) None False
        [''photos/a.jpg'', ''photos/b.JPG''] 0 0 =
      process_files w' ''photos'' 2023 (Some 2) None False [''photos/b.JPG''] 0 1)"
proof -
  have a: "MINYEAR \<le> 2023" and b: "2023 \<le> MAXYEAR" by (simp_all add: MINYEAR_def MAXYEAR_def)
  have c: "case Some (2::int) of None \<Rightarrow> True | Some m \<Rightarrow> 1 \<le> m \<and> m \<le> 12" by simp
  have d: "days_in_month 2023 (target_month leap_day (Some 2)) < day leap_day"
    by (simp add: days_in_month_def target_month_def leap_day_def is_leap_def DAYS_IN_MONTH_def)
  from invalid_date_counted_as_failed [OF Image_open_a current_datetime_a leap_day_valid a b c d,
      of None "''photos''" None False "[''photos/b.JPG'']" 0 0]
  show ?thesis by simp
qed

section \<open>Files without a capture datetime\<close>

lemma Image_open_Inr: "Image_open w p = Inr img \<Longrightarrow> files w p = Some img \<and> readable img"
  by (auto simp add: Image_open_def split: option.splits if_splits)

text \<open>
  Claim C4. For a file that opens as an image and has no \<open>DateTime\<close> field, the reader's
  \<open>try\<close> body returns \<open>None\<close> normally, not through its handler, so \<open>get_image_datetime\<close>
  returns \<open>None\<close>; and its caller \<open>modify_image_datetime\<close> takes the file's last-modified
  time as the source timestamp: the transform is applied to that time and its result is
  what is written back.
\<close>

theorem missing_datetime_falls_back_to_mtime:
  assumes "Image_open w image_path = Inr img"
    and "''DateTime'' \<notin> fst ` set (exif_0th img)"
  shows "get_image_datetime_try w image_path = Inr None \<and>
         get_image_datetime w image_path = None \<and>
         current_datetime w image_path = Inr (mtime img) \<and>
         modify_image_datetime w image_path new_year new_month output_path =
           (case new_datetime (mtime img) new_year new_month of
              Inl e \<Rightarrow> (False, w)
            | Inr new_dt \<Rightarrow>
                write_back w img (case output_path of None \<Rightarrow> image_path | Some p \<Rightarrow> p) new_dt)"
proof -
  from assms(2) have "find (\<lambda>item. fst item = ''DateTime'') (exif_0th img) = None"
    by (force simp add: find_None_iff)
  with assms(1) have t: "get_image_datetime_try w image_path = Inr None"
    by (simp add: get_image_datetime_try_def)
  then have g: "get_image_datetime w image_path = None"
    by (simp add: get_image_datetime_def)
  from Image_open_Inr [OF assms(1)] have "os_path_getmtime w image_path = Inr (mtime img)"
    by (simp add: os_path_getmtime_def)
  with g have c: "current_datetime w image_path = Inr (mtime img)"
    by (simp add: current_datetime_def)
  from assms(1) c have "modify_image_datetime w image_path new_year new_month output_path =
           (case new_datetime (mtime img) new_year new_month of
              Inl e \<Rightarrow> (False, w)
            | Inr new_dt \<Rightarrow>
                write_back w img (case output_path of None \<Rightarrow> image_path | Some p \<Rightarrow> p) new_dt)"
    by (simp add: modify_image_datetime_def)
  with t g c show ?thesis by simp
qed

lemma Image_open_b:
  "Image_open example_world ''photos/b.JPG'' = Inr (photo [(''Make'', ''ACME'')] mtime_b)"
  by (simp add: Image_open_def example_world_def example_files_def photo_def)

theorem missing_datetime_falls_back_to_mtime_witness:
  "get_image_datetime_try example_world ''photos/b.JPG'' = Inr None \<and>
   get_image_datetime example_world ''photos/b.JPG'' = None \<and>
   current_datetime example_world ''photos/b.JPG'' = Inr mtime_b"
proof -
  have "''DateTime'' \<notin> fst ` set (exif_0th (photo [(''Make'', ''ACME'')] mtime_b))"
    by (simp add: photo_def)
  from missing_datetime_falls_back_to_mtime [OF Image_open_b this]
  show ?thesis by (simp add: photo_def)
qed

section \<open>Unreadable files\<close>

text \<open>
  Claim C5, as amended. For a file that \<open>Image.open\<close> refuses with an \<open>OSError\<close> (a missing
  or unreadable file, or one that is not an image), the error is raised inside the reader's
  \<open>try\<close> and caught by its handler: the reader returns \<open>None\<close>, the value it returns for a
  missing field, and no \<open>IOError\<close> reaches its caller. The hard failure shows one level up:
  \<open>modify_image_datetime\<close>, which opens the image itself, returns \<open>False\<close> and changes
  nothing.
\<close>

theorem unreadable_file_reads_as_no_datetime:
  assumes "Image_open w image_path = Inl e" and "is_OSError e"
  shows "get_image_datetime_try w image_path = Inl e \<and>
         get_image_datetime w image_path = None \<and>
         modify_image_datetime w image_path new_year new_month output_path = (False, w)"
  using assms(1)
  by (simp add: get_image_datetime_try_def get_image_datetime_def modify_image_datetime_def)

lemma Image_open_broken: "Image_open example_world ''photos/broken.jpg'' = Inl OSError"
  by (simp add: Image_open_def example_world_def example_files_def photo_def)

theorem unreadable_file_reads_as_no_datetime_witness:
  "get_image_datetime_try example_world ''photos/broken.jpg'' = Inl OSError \<and>
   get_image_datetime example_world ''photos/broken.jpg'' = None \<and>
   modify_image_datetime example_world ''photos/broken.jpg'' 2023 None None
     = (False, example_world)"
proof -
  have "is_OSError OSError" by simp
  from unreadable_file_reads_as_no_datetime [OF Image_open_broken this]
  show ?thesis by simp
qed

text \<open>
  The claim as stated fails: the file \<open>photos/broken.jpg\<close> cannot be opened, and the reader
  returns for it what it returns for \<open>photos/b.JPG\<close>, which has no \<open>DateTime\<close> field.
\<close>

theorem unreadable_same_as_absent_counterexample:
  "Image_open example_world ''photos/broken.jpg'' = Inl OSError \<and>
   get_image_datetime example_world ''photos/broken.jpg'' = None \<and>
   get_image_datetime example_world ''photos/b.JPG'' = None"
  by (simp add: get_image_datetime_def get_image_datetime_try_def
      Image_open_def example_world_def example_files_def photo_def)

section \<open>Discovery in a folder that does not exist\<close>







section \<open>Dry run\<close>

lemma process_folder_dry_run:
  "process_folder w folder_path new_year new_month output_folder recursive True =
     (fst (process_folder w folder_path new_year new_month output_folder recursive True), w)"
  by (simp add: process_folder_def split: sum.splits)

text \<open>
  Claim C9. With the dry-run flag set, the world after \<open>process_folder\<close> is the world before
  it, whatever the files are and whether the function returns or raises; and so is the
  world after \<open>main\<close>, for a folder and for a single file. No file's content, metadata or
  modification time changes, and no directory is made.
\<close>

theorem dry_run_never_mutates:
  assumes "args_dry_run a"
  shows "snd (process_folder w folder_path new_year new_month output_folder recursive True) = w \<and>
         snd (main w a) = w"
proof -
  have 1: "snd (process_folder w folder_path new_year new_month output_folder recursive True) = w"
    by (subst process_folder_dry_run) simp
  have d: "args_dry_run a = True" using assms by simp
  have 2: "snd (main w a) = w"
    unfolding main_def d
    by (subst process_folder_dry_run) (simp split: sum.split option.split prod.split)
  from 1 2 show ?thesis by simp
qed

theorem dry_run_never_mutates_witness:
  "snd (process_folder example_world ''photos'' 2023 (Some 12) None True True) = example_world \<and>
   snd (main example_world example_args) = example_world"
proof -
  have "args_dry_run example_args" by (simp add: example_args_def)
  from dry_run_never_mutates [OF this] show ?thesis by simp
qed

section \<open>The counts of a batch\<close>

text \<open>
  The processing loop adds one to exactly one of its two counters for each file, so a batch
  run that is not a dry run returns a triple with \<open>succeeded + failed = total\<close>.
\<close>

lemma process_files_counts:
  "process_files w folder_path new_year new_month output_folder recursive jpeg_files sc ec
     = (s, e, w') \<Longrightarrow> s + e = sc + ec + int (length jpeg_files) \<and> sc \<le> s \<and> ec \<le> e"
proof (induction jpeg_files arbitrary: w sc ec)
  case Nil
  then show ?case by simp
next
  case (Cons file_path rest)
  obtain ok w1 where p: "process_file w folder_path new_year new_month output_folder recursive
      file_path = (ok, w1)"
    by (cases "process_file w folder_path new_year new_month output_folder recursive file_path")
  show ?case
  proof (cases ok)
    case True
    with Cons.prems p have "process_files w1 folder_path new_year new_month output_folder
        recursive rest (sc + 1) ec = (s, e, w')" by simp
    from Cons.IH [OF this] show ?thesis by simp
  next
    case False
    with Cons.prems p have "process_files w1 folder_path new_year new_month output_folder
        recursive rest sc (ec + 1) = (s, e, w')" by simp
    from Cons.IH [OF this] show ?thesis by simp
  qed
qed

lemma process_folder_counts:
  assumes "find_jpeg_files w folder_path recursive = Inr jpeg_files"
  shows "\<exists>s e w'. process_folder w folder_path new_year new_month output_folder recursive False
            = (Inr (s, e, int (length jpeg_files)), w') \<and>
           s + e = int (length jpeg_files) \<and> 0 \<le> s \<and> 0 \<le> e"
proof (cases "jpeg_files = []")
  case True
  with assms show ?thesis by (simp add: process_folder_def)
next
  case False
  obtain s e w' where l: "process_files w folder_path new_year new_month output_folder recursive
      jpeg_files 0 0 = (s, e, w')"
    by (cases "process_files w folder_path new_year new_month output_folder recursive
      jpeg_files 0 0") auto
  from process_files_counts [OF l] assms False l show ?thesis
    by (simp add: process_folder_def)
qed

text \<open>
  A dry run returns \<open>(0, 0, total)\<close>, unless the \<open>ValueError\<close> of \<open>replace\<close> leaves it.
\<close>

lemma process_folder_dry_run_result:
  assumes "find_jpeg_files w folder_path recursive = Inr jpeg_files"
  shows "fst (process_folder w folder_path new_year new_month output_folder recursive True)
           = Inr (0, 0, int (length jpeg_files)) \<or>
         fst (process_folder w folder_path new_year new_month output_folder recursive True)
           = Inl ValueError"
proof -
  have "dry_run_files w new_year new_month fs = Inr () \<or>
        dry_run_files w new_year new_month fs = Inl ValueError" for fs
  proof (induction fs)
    case Nil
    show ?case by simp
  next
    case (Cons p fs)
    show ?case
    proof (cases "get_image_datetime w p")
      case None
      with Cons show ?thesis by simp
    next
      case (Some cur)
      show ?thesis
      proof (cases "new_datetime cur new_year new_month")
        case (Inl e)
        then have "e = ValueError" by (simp add: new_datetime_eq split: if_split_asm)
        with Some Inl show ?thesis by simp
      next
        case (Inr t)
        with Some Cons show ?thesis by simp
      qed
    qed
  qed
  from this [of jpeg_files] assms show ?thesis
    by (cases "jpeg_files = []") (auto simp add: process_folder_def)
qed

text \<open>
  Claim C10 at a failing input. The example folder holds three files that discovery
  accepts; the first was taken on 29 February 2020. A dry run with target year 2023 raises
  \<open>ValueError\<close> and returns no triple, where the claim says \<open>(0, 0, 3)\<close>; the same batch
  without the dry-run flag returns \<open>(1, 2, 3)\<close>, counting that file as an error.
\<close>

theorem dry_run_raises_on_leap_day:
  "find_jpeg_files example_world ''photos'' False
     = Inr [''photos/a.jpg'', ''photos/b.JPG'', ''photos/broken.jpg''] \<and>
   fst (process_folder example_world ''photos'' 2023 None None False True) = Inl ValueError \<and>
   fst (process_folder example_world ''photos'' 2023 None None False False) = Inr (1, 2, 3)"
  by code_simp

section \<open>The classifier and the case of the extension\<close>

lemma ascii_upper_fixes_upper:
  "(c, l) \<in> set (zip ''ABCDEFGHIJKLMNOPQRSTUVWXYZ'' ''abcdefghijklmnopqrstuvwxyz'')
   \<Longrightarrow> ascii_upper l = c \<and> ascii_upper c = c"
  by (simp, elim disjE conjE; simp add: ascii_upper_def)

lemma ascii_upper_lower: "ascii_upper (ascii_lower c) = ascii_upper c"
proof (cases "map_of (zip ''ABCDEFGHIJKLMNOPQRSTUVWXYZ'' ''abcdefghijklmnopqrstuvwxyz'') c")
  case None
  then show ?thesis by (simp only: ascii_lower_def option.case)
next
  case (Some l)
  then have "(c, l) \<in> set (zip ''ABCDEFGHIJKLMNOPQRSTUVWXYZ'' ''abcdefghijklmnopqrstuvwxyz'')"
    by (rule map_of_SomeD)
  then have "ascii_upper l = ascii_upper c"
    using ascii_upper_fixes_upper by simp
  with Some show ?thesis by (simp only: ascii_lower_def option.case)
qed


lemma upper_jpg: "map ascii_upper ''.jpg'' = ''.JPG''" "map ascii_upper ''.jpeg'' = ''.JPEG''"
  by (simp_all add: ascii_upper_def)

lemma lower_jpg: "map ascii_lower ''.jpg'' = ''.jpg''" "map ascii_lower ''.jpeg'' = ''.jpeg''"
  "map ascii_lower ''.JPG'' = ''.jpg''" "map ascii_lower ''.JPEG'' = ''.jpeg''"
  by (simp_all add: ascii_lower_def)

lemma upper_JPG: "map ascii_upper ''.JPG'' = ''.JPG''" "map ascii_upper ''.JPEG'' = ''.JPEG''"
  by (simp_all add: ascii_upper_def)

lemma extension_cases:
  "(ext \<in> jpeg_extensions) =
     ((map ascii_lower ext = ''.jpg'' \<or> map ascii_lower ext = ''.jpeg'') \<and>
      (ext = map ascii_lower ext \<or> ext = map ascii_upper ext))"
proof
  assume "ext \<in> jpeg_extensions"
  then consider "ext = ''.jpg''" | "ext = ''.jpeg''" | "ext = ''.JPG''" | "ext = ''.JPEG''"
    unfolding jpeg_extensions_def by blast
  then show "(map ascii_lower ext = ''.jpg'' \<or> map ascii_lower ext = ''.jpeg'') \<and>
      (ext = map ascii_lower ext \<or> ext = map ascii_upper ext)"
  proof cases
    case 1 then show ?thesis by (simp only: lower_jpg simp_thms)
  next
    case 2 then show ?thesis by (simp only: lower_jpg simp_thms)
  next
    case 3 then show ?thesis by (simp only: lower_jpg upper_JPG simp_thms)
  next
    case 4 then show ?thesis by (simp only: lower_jpg upper_JPG simp_thms)
  qed
next
  assume a: "(map ascii_lower ext = ''.jpg'' \<or> map ascii_lower ext = ''.jpeg'') \<and>
      (ext = map ascii_lower ext \<or> ext = map ascii_upper ext)"
  have u: "map ascii_upper (map ascii_lower ext) = map ascii_upper ext"
    by (simp only: map_map o_def ascii_upper_lower)
  from a have "ext = map ascii_lower ext \<or> ext = map ascii_upper (map ascii_lower ext)"
    by (simp only: u)
  with a have "ext = ''.jpg'' \<or> ext = ''.jpeg'' \<or> ext = ''.JPG'' \<or> ext = ''.JPEG''"
    by (elim conjE disjE) (simp_all only: upper_jpg simp_thms)
  then show "ext \<in> jpeg_extensions"
    unfolding jpeg_extensions_def by blast
qed

text \<open>
  Claim C8, as amended. The classifier is a total function of the path alone. It returns
  true exactly when the extension of the path matches \<open>.jpg\<close> or \<open>.jpeg\<close> without regard
  to case and is written entirely in lower case or entirely in upper case, that is, when
  the extension is one of \<open>.jpg\<close>, \<open>.jpeg\<close>, \<open>.JPG\<close>, \<open>.JPEG\<close>.
\<close>

theorem is_jpeg_file_exact_extensions:
  "is_jpeg_file file_path =
     (is_jpeg_file_spec file_path \<and>
      (snd (splitext file_path) = map ascii_lower (snd (splitext file_path)) \<or>
       snd (splitext file_path) = map ascii_upper (snd (splitext file_path))))"
  unfolding is_jpeg_file_def is_jpeg_file_spec_def extension_cases [of "snd (splitext file_path)"]
  by simp


lemma splitext_b: "snd (splitext ''photos/b.JPG'') = ''.JPG''"
  by code_simp

theorem is_jpeg_file_exact_extensions_witness: "is_jpeg_file ''photos/b.JPG''"
proof -
  have "is_jpeg_file_spec ''photos/b.JPG''"
    unfolding is_jpeg_file_spec_def splitext_b lower_jpg by simp
  moreover have "snd (splitext ''photos/b.JPG'') = map ascii_upper (snd (splitext ''photos/b.JPG''))"
    unfolding splitext_b upper_JPG ..
  ultimately show ?thesis
    by (simp only: is_jpeg_file_exact_extensions [of "''photos/b.JPG''"] simp_thms)
qed

text \<open>
  The claim as stated fails for a mixed-case extension: \<open>.Jpg\<close> matches \<open>.jpg\<close> without
  regard to case, and the classifier rejects the path.
\<close>

theorem mixed_case_extension_counterexample:
  "is_jpeg_file_spec ''photos/d.Jpg'' \<and> \<not> is_jpeg_file ''photos/d.Jpg''"
  by code_simp

section \<open>Discovery in an existing folder\<close>

text \<open>
  Without recursion, the names that \<open>os.path.isfile\<close> and the classifier accept are the
  direct files the classifier accepts, when the paths of the entries resolve to the entries.
\<close>

lemma listed_files_eq:
  assumes "entries_resolve w folder_path es"
  shows "filter (\<lambda>file_path. os_path_isfile w file_path \<and> is_jpeg_file file_path)
           (map (path_join folder_path) (map fst es))
         = filter is_jpeg_file (direct_files folder_path es)"
  using assms
proof (induction es)
  case Nil
  show ?case by (simp add: direct_files_def)
next
  case (Cons e es)
  from Cons.prems have r: "tree w (path_join folder_path (fst e)) = Some (snd e)"
    and rest: "entries_resolve w folder_path es"
    by (simp_all add: entries_resolve_def)
  from r have "os_path_isfile w (path_join folder_path (fst e)) = (snd e = File)"
    by (simp add: os_path_isfile_def)
  with Cons.IH [OF rest] show ?case
    by (simp add: direct_files_def)
qed

text \<open>
  With recursion, the accepted paths gathered from the triples of \<open>os.walk\<close> are, up to
  order, the accepted files of the tree: \<open>os.walk\<close> lists the files of a directory before
  it descends, the tree is read entry by entry.
\<close>

lemma walk_entries_mset:
  assumes "\<And>e. e \<in> set xs \<Longrightarrow> is_Dir (snd e) \<Longrightarrow>
      mset (concat (map (\<lambda>(r, ds, fs). filter is_jpeg_file (map (path_join r) fs))
                        (walk (path_join d (fst e)) (snd e))))
      = mset (filter is_jpeg_file (files_below (path_join d (fst e)) (snd e)))"
  shows "mset (filter is_jpeg_file (map (path_join d) (map fst (filter (\<lambda>e. \<not> is_Dir (snd e)) xs))))
       + mset (concat (map (\<lambda>(r, ds, fs). filter is_jpeg_file (map (path_join r) fs))
                (concat (map (\<lambda>e. if is_Dir (snd e) then walk (path_join d (fst e)) (snd e) else []) xs))))
       = mset (filter is_jpeg_file
           (concat (map (\<lambda>e. case snd e of
                          File \<Rightarrow> [path_join d (fst e)]
                        | Dir es' \<Rightarrow> files_below (path_join d (fst e)) (snd e)) xs)))"
  using assms
proof (induction xs)
  case Nil
  show ?case by simp
next
  case (Cons x xs)
  have ih: "mset (filter is_jpeg_file (map (path_join d) (map fst (filter (\<lambda>e. \<not> is_Dir (snd e)) xs))))
       + mset (concat (map (\<lambda>(r, ds, fs). filter is_jpeg_file (map (path_join r) fs))
                (concat (map (\<lambda>e. if is_Dir (snd e) then walk (path_join d (fst e)) (snd e) else []) xs))))
       = mset (filter is_jpeg_file
           (concat (map (\<lambda>e. case snd e of
                          File \<Rightarrow> [path_join d (fst e)]
                        | Dir es' \<Rightarrow> files_below (path_join d (fst e)) (snd e)) xs)))"
    by (rule Cons.IH) (simp add: Cons.prems)
  show ?case
  proof (cases "snd x")
    case File
    with ih show ?thesis by simp
  next
    case (Dir es')
    then have "is_Dir (snd x)" by simp
    from Cons.prems [of x, OF _ this]
    have "mset (concat (map (\<lambda>(r, ds, fs). filter is_jpeg_file (map (path_join r) fs))
                        (walk (path_join d (fst x)) (snd x))))
      = mset (filter is_jpeg_file (files_below (path_join d (fst x)) (snd x)))"
      by simp
    with ih Dir show ?thesis by (simp del: walk.simps files_below.simps)
  qed
qed

lemma walk_files_mset:
  "mset (concat (map (\<lambda>(r, ds, fs). filter is_jpeg_file (map (path_join r) fs)) (walk d node)))
     = mset (filter is_jpeg_file (files_below d node))"
proof (induction d node rule: walk.induct)
  case (1 d)
  show ?case by simp
next
  case (2 d es)
  from walk_entries_mset [of es d, OF "2.IH"] show ?case by simp
qed


lemma exact_filter_facts:
  "mset ps = mset (filter P xs) \<Longrightarrow> list_all P ps \<and> length ps = length (filter P xs)"
proof -
  assume a: "mset ps = mset (filter P xs)"
  then have "set ps = set (filter P xs)" by (rule mset_eq_setD)
  then have "list_all P ps" by (simp add: list_all_iff)
  moreover from a have "length ps = length (filter P xs)" by (rule mset_eq_length)
  ultimately show ?thesis by simp
qed

text \<open>
  Claim C6. For an existing folder, in both modes, discovery returns normally (also when
  nothing matches) a list that is sorted lexicographically by full path and holds exactly
  the files of the folder that the classifier accepts, each as often as the folder holds
  it: none of the other files is in it, and its length is the number of accepted files.
  The files of the folder are its direct files without recursion and the files of the whole
  tree with recursion.
\<close>

theorem find_jpeg_files_sorted_exact:
  assumes "tree w folder_path = Some (Dir es)"
    and "recursive \<or> entries_resolve w folder_path es"
  shows "\<exists>ps. find_jpeg_files w folder_path recursive = Inr ps \<and> sorted ps \<and>
           mset ps = mset (filter is_jpeg_file (folder_files folder_path es recursive)) \<and>
           list_all is_jpeg_file ps \<and>
           length ps = length (filter is_jpeg_file (folder_files folder_path es recursive))"
proof (cases recursive)
  case True
  define ps where "ps = sort (concat (map (\<lambda>(r, ds, fs). filter is_jpeg_file (map (path_join r) fs))
                               (walk folder_path (Dir es))))"
  have f: "find_jpeg_files w folder_path recursive = Inr ps"
    using True assms(1) by (simp add: find_jpeg_files_def os_walk_def ps_def)
  have m: "mset ps = mset (filter is_jpeg_file (folder_files folder_path es recursive))"
    using True walk_files_mset [of folder_path "Dir es"]
    by (simp add: ps_def folder_files_def del: walk.simps files_below.simps)
  have "sorted ps" by (simp add: ps_def)
  with f m exact_filter_facts [OF m] show ?thesis by simp
next
  case False
  with assms(2) have r: "entries_resolve w folder_path es" by simp
  define ps where "ps = sort (filter is_jpeg_file (direct_files folder_path es))"
  have f: "find_jpeg_files w folder_path recursive = Inr ps"
    using False assms(1) listed_files_eq [OF r]
    by (simp add: find_jpeg_files_def os_listdir_def ps_def)
  have m: "mset ps = mset (filter is_jpeg_file (folder_files folder_path es recursive))"
    using False by (simp add: ps_def folder_files_def)
  have "sorted ps" by (simp add: ps_def)
  with f m exact_filter_facts [OF m] show ?thesis by simp
qed

lemma example_tree_photos: "tree example_world ''photos'' = Some (Dir photos_dir)"
  by (simp add: example_world_def example_tree_def)

lemma example_entries_resolve: "entries_resolve example_world ''photos'' photos_dir"
  by code_simp

lemma example_recognised: "length (filter is_jpeg_file (folder_files ''photos'' photos_dir False)) = 3"
  by code_simp

theorem find_jpeg_files_sorted_exact_witness:
  "\<exists>ps. find_jpeg_files example_world ''photos'' False = Inr ps \<and> sorted ps \<and>
         list_all is_jpeg_file ps \<and> length ps = 3"
proof -
  have "False \<or> entries_resolve example_world ''photos'' photos_dir"
    using example_entries_resolve by simp
  from find_jpeg_files_sorted_exact [OF example_tree_photos this]
  show ?thesis unfolding example_recognised by blast
qed

end
